theory Spec2Isabelle
  imports Complex_Main "HOL-Library.Word" "HOL-Library.Sublist" "HOL-Library.Log_Nat"
begin

section \<open>JavaScript values used by the content script\<close>

subsection \<open>Strings\<close>

text \<open>
  A JavaScript string is a sequence of UTF-16 code units; \<open>s.length\<close> counts code units
  and \<open>!s\<close> holds exactly for the empty string. String literals of the source are written
  \<open>str ''...''\<close>; a code unit outside printable ASCII is written as a number
  (\<open>0xD7\<close> is the multiplication sign of the badge \<open>H1\<times>n\<close>, \<open>0x2013\<close> the en dash).
\<close>

type_synonym code_unit = "16 word"
type_synonym jsstring = "code_unit list"

definition str :: "string \<Rightarrow> jsstring" where
  "str s = map of_char s"

text \<open>
  Template literals print a count with \<open>Number::toString\<close>; for the integers that occur
  here (below \<open>10^21\<close>) that is the decimal numeral, with a minus sign for negatives.
\<close>

fun digits :: "nat \<Rightarrow> jsstring" where
  "digits n = (if n < 10 then [of_nat (48 + n)] else digits (n div 10) @ [of_nat (48 + n mod 10)])"

declare digits.simps [simp del]

definition toString :: "int \<Rightarrow> jsstring" where
  "toString i = (if i < 0 then str ''-'' @ digits (nat (- i)) else digits (nat i))"

text \<open>
  \<open>String.prototype.toLowerCase\<close> on the Basic Latin and Latin-1 Supplement blocks
  (the Unicode default case conversion there: \<open>A\<close>-\<open>Z\<close> and \<open>U+00C0\<close>-\<open>U+00DE\<close> without
  \<open>U+00D7\<close> move up by \<open>0x20\<close>). Code units of other blocks are left as they are: their
  case tables are not part of this development. Outside these two blocks only \<open>U+0130\<close>
  and \<open>U+212A\<close> lower-case to text with a Basic Latin letter (\<open>i\<close> followed by \<open>U+0307\<close>,
  and \<open>k\<close>), and neither can take part in an occurrence of \<open>noindex\<close> or \<open>nofollow\<close>,
  so the substring tests of \<open>scoreRobots\<close> are not affected.
\<close>

definition toLowerCase_unit :: "code_unit \<Rightarrow> code_unit" where
  "toLowerCase_unit c =
     (if (0x41 \<le> c \<and> c \<le> 0x5A) \<or> (0xC0 \<le> c \<and> c \<le> 0xDE \<and> c \<noteq> 0xD7) then c + 0x20 else c)"

definition toLowerCase :: "jsstring \<Rightarrow> jsstring" where
  "toLowerCase s = map toLowerCase_unit s"

text \<open>\<open>s.includes(n)\<close>: \<open>n\<close> occurs in \<open>s\<close> as a contiguous substring.\<close>

fun includes_js :: "jsstring \<Rightarrow> jsstring \<Rightarrow> bool" where
  "includes_js [] n = (n = [])"
| "includes_js (c # cs) n = (prefix n (c # cs) \<or> includes_js cs n)"

definition startsWith :: "jsstring \<Rightarrow> jsstring \<Rightarrow> bool" where
  "startsWith s p = prefix p s"

text \<open>
  The regular expression \<open>/^https?:\/\//i\<close>. Under the \<open>i\<close> flag a pattern character
  matches an input code unit when both have the same canonical (upper-case) form; for the
  ASCII pattern characters used here only the ASCII letter of either case qualifies,
  because a non-ASCII code unit is never canonicalised to an ASCII one.
\<close>

definition canonicalize :: "code_unit \<Rightarrow> code_unit" where
  "canonicalize c = (if 0x61 \<le> c \<and> c \<le> 0x7A then c - 0x20 else c)"

fun match_ci :: "jsstring \<Rightarrow> jsstring \<Rightarrow> jsstring option" where
  "match_ci [] s = Some s"
| "match_ci (p # ps) [] = None"
| "match_ci (p # ps) (c # cs) =
     (if canonicalize c = canonicalize p then match_ci ps cs else None)"

definition test_http :: "jsstring \<Rightarrow> bool" where
  "test_http href =
     (case match_ci (str ''http'') href of
        None \<Rightarrow> False
      | Some r \<Rightarrow>
          (case match_ci (str ''s'') r of
             Some r' \<Rightarrow> match_ci (str ''://'') r' \<noteq> None \<or> match_ci (str ''://'') r \<noteq> None
           | None \<Rightarrow> match_ci (str ''://'') r \<noteq> None))"

subsection \<open>Whitespace normalisation\<close>

text \<open>
  \<open>normalizeSpace(text)\<close> is \<open>(text || '').replace(/\s+/g, ' ').trim()\<close>. The class
  \<open>\s\<close> and the characters removed by \<open>trim\<close> are the same set: the ECMAScript
  white space and line terminator code points.
\<close>

definition isSpace :: "code_unit \<Rightarrow> bool" where
  "isSpace c =
     ((0x09 \<le> c \<and> c \<le> 0x0D) \<or> c = 0x20 \<or> c = 0xA0 \<or> c = 0x1680
      \<or> (0x2000 \<le> c \<and> c \<le> 0x200A) \<or> c = 0x2028 \<or> c = 0x2029 \<or> c = 0x202F
      \<or> c = 0x205F \<or> c = 0x3000 \<or> c = 0xFEFF)"

function replaceSpaces :: "jsstring \<Rightarrow> jsstring" where
  "replaceSpaces [] = []"
| "replaceSpaces (c # cs) =
     (if isSpace c then 0x20 # replaceSpaces (dropWhile isSpace cs) else c # replaceSpaces cs)"
  by pat_completeness auto
termination
  by (relation "measure length") (auto simp: length_dropWhile_le less_Suc_eq_le)

definition trim :: "jsstring \<Rightarrow> jsstring" where
  "trim s = rev (dropWhile isSpace (rev (dropWhile isSpace s)))"

definition normalizeSpace :: "jsstring \<Rightarrow> jsstring" where
  "normalizeSpace text = trim (replaceSpaces text)"

subsection \<open>Numbers\<close>

text \<open>
  Counts and points are integers far below \<open>2^53\<close>, where Number arithmetic is exact.
  The one place where the source leaves the integers is the alt-coverage ratio of
  \<open>scoreImages\<close>: \<open>withAlt / total\<close>, its comparison with the literals \<open>0.9\<close> and
  \<open>0.6\<close>, and \<open>Math.round(ratio * 100)\<close>. These are IEEE 754 binary64 operations:
  the exact result rounded to the nearest value with a 53-bit significand, ties to the even
  significand. A Number is modelled by the rational it denotes and \<open>to_double\<close> is that
  rounding (the exponent range is not bounded: the quotients of two counts below \<open>2^53\<close>
  and their hundredfold are never subnormal and never overflow).
\<close>

definition round_ties_even :: "rat \<Rightarrow> int" where
  "round_ties_even x =
     (let f = \<lfloor>x\<rfloor>; r = x - of_int f
      in if r < 1/2 then f else if 1/2 < r then f + 1 else if even f then f else f + 1)"

text \<open>\<open>binade x\<close> is the exponent \<open>k\<close> with \<open>2^k \<le> x < 2^(k+1)\<close>, for positive \<open>x\<close>.\<close>

definition binade :: "rat \<Rightarrow> int" where
  "binade x =
     (case quotient_of x of
        (n, d) \<Rightarrow> (let k = bitlen n - bitlen d in if 2 powi k \<le> x then k else k - 1))"

definition to_double :: "rat \<Rightarrow> rat" where
  "to_double x =
     (if x = 0 then 0
      else if x < 0 then
        (let e = binade (- x) - 52 in - (of_int (round_ties_even (- x / 2 powi e)) * 2 powi e))
      else
        (let e = binade x - 52 in of_int (round_ties_even (x / 2 powi e)) * 2 powi e))"

definition js_div :: "rat \<Rightarrow> rat \<Rightarrow> rat" where
  "js_div x y = to_double (x / y)"

definition js_mul :: "rat \<Rightarrow> rat \<Rightarrow> rat" where
  "js_mul x y = to_double (x * y)"

text \<open>\<open>Math.round\<close>: the nearest integer, a tie going towards \<open>+\<infinity>\<close>.\<close>

definition Math_round :: "rat \<Rightarrow> int" where
  "Math_round x = \<lfloor>x + 1/2\<rfloor>"

definition clamp :: "int \<Rightarrow> int \<Rightarrow> int \<Rightarrow> int" where
  "clamp n lo hi = max lo (min hi n)"

section \<open>Data model\<close>

datatype status = Good | Warn | Bad

text \<open>The result of one scorer: \<open>{points, status, badge, detail}\<close>.\<close>

record signalResult =
  points :: int
  status :: status
  badge :: jsstring
  detail :: jsstring

text \<open>The object built by \<open>getHeadingsCount\<close>: one count for each of the keys \<open>h1\<close>..\<open>h6\<close>.\<close>

record headingCounts =
  h1 :: nat
  h2 :: nat
  h3 :: nat
  h4 :: nat
  h5 :: nat
  h6 :: nat

text \<open>The object built by \<open>getImageAltStats\<close>: \<open>{total, withAlt, withoutAlt}\<close>.\<close>

record imageStats =
  total_imgs :: nat
  withAlt :: nat
  withoutAlt :: nat

text \<open>The object built by \<open>getJsonLdBlocks\<close>: \<open>{count, parsedCount, parseErrors}\<close>.\<close>

record jsonldStats =
  count :: nat
  parsedCount :: nat
  parseErrors :: nat

section \<open>Extractors\<close>

text \<open>
  \<open>getJsonLdBlocks\<close> walks the \<open>script[type="application/ld+json"]\<close> elements; a
  node is given by its \<open>textContent\<close>. \<open>JSON.parse\<close> belongs to the runtime and is a
  parameter: it returns the parsed value, or \<open>None\<close> where it throws. The \<open>try\<close>/\<open>catch\<close>
  around it turns a throw into \<open>parseErrors += 1\<close>, so the loop itself has no failing
  branch. The loop state is the array \<open>parsed\<close> and the counter \<open>parseErrors\<close>.
\<close>

fun jsonld_loop :: "(jsstring \<Rightarrow> 'j option) \<Rightarrow> jsstring list \<Rightarrow> 'j list \<times> nat \<Rightarrow> 'j list \<times> nat" where
  "jsonld_loop parse [] st = st"
| "jsonld_loop parse (node # nodes) (parsed, errs) =
     (let raw = normalizeSpace node in
      if raw = [] then jsonld_loop parse nodes (parsed, errs)
      else (case parse raw of
              Some v \<Rightarrow> jsonld_loop parse nodes (parsed @ [v], errs)
            | None \<Rightarrow> jsonld_loop parse nodes (parsed, errs + 1)))"

definition getJsonLdBlocks :: "(jsstring \<Rightarrow> 'j option) \<Rightarrow> jsstring list \<Rightarrow> jsonldStats" where
  "getJsonLdBlocks parse nodes =
     (case jsonld_loop parse nodes ([], 0) of
        (parsed, errs) \<Rightarrow>
          \<lparr>count = length nodes, parsedCount = length parsed, parseErrors = errs\<rparr>)"

text \<open>
  \<open>getHeadingsCount\<close>: the argument gives, for a level, the number of elements that
  \<open>document.querySelectorAll\<close> finds for the tag of that level.
\<close>

definition getHeadingsCount :: "(nat \<Rightarrow> nat) \<Rightarrow> headingCounts" where
  "getHeadingsCount found =
     \<lparr>h1 = found 1, h2 = found 2, h3 = found 3, h4 = found 4, h5 = found 5, h6 = found 6\<rparr>"

text \<open>
  \<open>getImageAltStats\<close>: an image is given by what \<open>getAttribute\<close> returns for \<open>src\<close>
  and \<open>alt\<close> (\<open>None\<close> for \<open>null\<close>).
\<close>

record image =
  src_attr :: "jsstring option"
  alt_attr :: "jsstring option"

definition or_empty :: "jsstring option \<Rightarrow> jsstring" where
  "or_empty a = (case a of None \<Rightarrow> [] | Some s \<Rightarrow> s)"

definition getImageAltStats :: "image list \<Rightarrow> imageStats" where
  "getImageAltStats imgs =
     (let relevant = filter (\<lambda>img. normalizeSpace (or_empty (src_attr img)) \<noteq> []) imgs;
          total = length relevant;
          withAlt = length (filter (\<lambda>img. length (normalizeSpace (or_empty (alt_attr img))) > 0) relevant)
      in \<lparr>total_imgs = total, withAlt = withAlt, withoutAlt = total - withAlt\<rparr>)"

section \<open>Scorers\<close>

definition scoreTitle :: "jsstring \<Rightarrow> signalResult" where
  "scoreTitle title =
     (let len = length title in
      if title = [] then
        \<lparr>points = 0, status = Bad, badge = str ''Missing'', detail = str ''No <title> found.''\<rparr>
      else if len \<ge> 10 \<and> len \<le> 60 then
        \<lparr>points = 20, status = Good, badge = digits len @ str '' chars'',
         detail = str ''Present and within recommended length ('' @ digits len @ str '' chars).''\<rparr>
      else
        \<lparr>points = 12, status = (if len < 10 then Warn else Warn),
         badge = digits len @ str '' chars'',
         detail = (if len < 10
                   then str ''Present but very short ('' @ digits len @ str '' chars).''
                   else str ''Present but long ('' @ digits len @ str '' chars).'')\<rparr>)"

definition scoreMetaDescription :: "jsstring \<Rightarrow> signalResult" where
  "scoreMetaDescription description =
     (let len = length description in
      if description = [] then
        \<lparr>points = 0, status = Bad, badge = str ''Missing'',
         detail = str ''No meta description found.''\<rparr>
      else if len \<ge> 50 \<and> len \<le> 160 then
        \<lparr>points = 20, status = Good, badge = digits len @ str '' chars'',
         detail = str ''Present and within recommended length ('' @ digits len @ str '' chars).''\<rparr>
      else
        \<lparr>points = 12, status = Warn, badge = digits len @ str '' chars'',
         detail = (if len < 50
                   then str ''Present but short ('' @ digits len @ str '' chars).''
                   else str ''Present but long ('' @ digits len @ str '' chars).'')\<rparr>)"

definition scoreMetaKeywords :: "jsstring \<Rightarrow> signalResult" where
  "scoreMetaKeywords keywords =
     (if keywords = [] then
        \<lparr>points = 0, status = Warn, badge = str ''Not set'',
         detail = str ''Meta keywords are optional and often ignored.''\<rparr>
      else
        (let len = length keywords in
         \<lparr>points = 3, status = Good, badge = str ''Present'',
          detail = str ''Present ('' @ digits len
                   @ str '' chars). Note: often ignored by search engines.''\<rparr>))"

text \<open>
  \<open>counts.h1 || 0\<close> is \<open>counts.h1\<close> for a number, and
  \<open>Object.values(counts).reduce((a, b) => a + b, 0)\<close> folds the six values from the left.
\<close>

definition scoreHeadings :: "headingCounts \<Rightarrow> signalResult" where
  "scoreHeadings counts =
     (let h1c = h1 counts;
          total = foldl (+) 0 [h1 counts, h2 counts, h3 counts, h4 counts, h5 counts, h6 counts]
      in
      if total = 0 then
        \<lparr>points = 0, status = Bad, badge = str ''None'',
         detail = str ''No headings found (H1'' @ [0x2013] @ str ''H6).''\<rparr>
      else if h1c = 1 then
        \<lparr>points = 15, status = Good, badge = str ''H1'' @ [0xD7] @ digits h1c,
         detail = str ''Headings present. H1 count is ideal (1). Total headings: ''
                  @ digits total @ str ''.''\<rparr>
      else if h1c = 0 then
        \<lparr>points = 7, status = Warn, badge = str ''No H1'',
         detail = str ''Headings found but missing H1. Total headings: '' @ digits total @ str ''.''\<rparr>
      else
        \<lparr>points = 7, status = Warn, badge = str ''H1'' @ [0xD7] @ digits h1c,
         detail = str ''Multiple H1s found ('' @ digits h1c @ str ''). Total headings: ''
                  @ digits total @ str ''.''\<rparr>)"

text \<open>
  The literals \<open>0.9\<close> and \<open>0.6\<close> denote the doubles nearest to \<open>9/10\<close> and \<open>6/10\<close>.
\<close>

definition scoreImages :: "imageStats \<Rightarrow> signalResult" where
  "scoreImages images =
     (let total = total_imgs images; wa = withAlt images; wo = withoutAlt images in
      if total = 0 then
        \<lparr>points = 6, status = Warn, badge = str ''No images'',
         detail = str ''No images detected on the page.''\<rparr>
      else
        (let ratio = js_div (of_nat wa) (of_nat total);
             pct = Math_round (js_mul ratio 100)
         in
         if ratio \<ge> to_double (9/10) then
           \<lparr>points = 10, status = Good, badge = toString pct @ str ''%'',
            detail = digits wa @ str ''/'' @ digits total @ str '' images have alt text (''
                     @ toString pct @ str ''%).''\<rparr>
         else if ratio \<ge> to_double (6/10) then
           \<lparr>points = 6, status = Warn, badge = toString pct @ str ''%'',
            detail = digits wa @ str ''/'' @ digits total @ str '' images have alt text (''
                     @ toString pct @ str ''%). '' @ digits wo @ str '' missing.''\<rparr>
         else
           \<lparr>points = 2, status = Bad, badge = toString pct @ str ''%'',
            detail = digits wa @ str ''/'' @ digits total @ str '' images have alt text (''
                     @ toString pct @ str ''%). '' @ digits wo @ str '' missing.''\<rparr>))"

definition scoreCanonical :: "jsstring \<Rightarrow> signalResult" where
  "scoreCanonical href =
     (if href = [] then
        \<lparr>points = 0, status = Warn, badge = str ''Missing'',
         detail = str ''No canonical link tag found.''\<rparr>
      else
        (let looksLikeUrl = (test_http href \<or> startsWith href (str ''/'')) in
         if \<not> looksLikeUrl then
           \<lparr>points = 3, status = Warn, badge = str ''Present'',
            detail = str ''Canonical present but looks unusual: '' @ href\<rparr>
         else
           \<lparr>points = 5, status = Good, badge = str ''Present'',
            detail = str ''Canonical present: '' @ href\<rparr>))"

definition scoreRobots :: "jsstring \<Rightarrow> signalResult" where
  "scoreRobots robots =
     (if robots = [] then
        \<lparr>points = 6, status = Good, badge = str ''Not set'',
         detail = str ''No robots meta tag found (often fine).''\<rparr>
      else
        (let val = toLowerCase robots;
             blocksIndexing = (includes_js val (str ''noindex'') \<or> includes_js val (str ''nofollow''))
         in
         if blocksIndexing then
           \<lparr>points = 0, status = Bad, badge = str ''Blocking'',
            detail = str ''Robots meta may prevent indexing: '' @ [0x22] @ robots @ [0x22]\<rparr>
         else
           \<lparr>points = 6, status = Good, badge = str ''OK'',
            detail = str ''Robots meta: '' @ [0x22] @ robots @ [0x22]\<rparr>))"

definition scoreStructuredData :: "jsonldStats \<Rightarrow> signalResult" where
  "scoreStructuredData jsonld =
     (let cnt = count jsonld; pc = parsedCount jsonld; pe = parseErrors jsonld in
      if cnt = 0 then
        \<lparr>points = 0, status = Warn, badge = str ''None'',
         detail = str ''No JSON-LD structured data found.''\<rparr>
      else if pc > 0 \<and> pe = 0 then
        \<lparr>points = 10, status = Good,
         badge = digits pc @ str '' block'' @ (if pc = 1 then [] else str ''s''),
         detail = str ''Found '' @ digits cnt @ str '' JSON-LD script tag(s); '' @ digits pc
                  @ str '' parsed successfully.''\<rparr>
      else
        \<lparr>points = 5, status = Warn, badge = str ''Partial'',
         detail = str ''Found '' @ digits cnt @ str '' JSON-LD script tag(s); '' @ digits pc
                  @ str '' parsed; '' @ digits pe @ str '' parse error(s).''\<rparr>)"

definition scoreWordCount :: "nat \<Rightarrow> signalResult" where
  "scoreWordCount words =
     (if words = 0 then
        \<lparr>points = 0, status = Bad, badge = str ''0'', detail = str ''No body text detected.''\<rparr>
      else if words \<ge> 300 then
        \<lparr>points = 10, status = Good, badge = digits words,
         detail = str ''Good amount of content ('' @ digits words @ str '' words).''\<rparr>
      else if words \<ge> 150 then
        \<lparr>points = 6, status = Warn, badge = digits words,
         detail = str ''Some content ('' @ digits words @ str '' words); consider adding more.''\<rparr>
      else
        \<lparr>points = 2, status = Warn, badge = digits words,
         detail = str ''Thin content ('' @ digits words @ str '' words).''\<rparr>)"

section \<open>Summary and aggregation\<close>

text \<open>The nine scored items, keyed as in \<open>payload.items\<close>.\<close>

record items =
  title :: signalResult
  metaDescription :: signalResult
  metaKeywords :: signalResult
  headings :: signalResult
  images :: signalResult
  canonical :: signalResult
  robots :: signalResult
  structuredData :: signalResult
  wordCount :: signalResult

text \<open>\<open>Array.prototype.join\<close> on an array of strings.\<close>

fun join :: "jsstring \<Rightarrow> jsstring list \<Rightarrow> jsstring" where
  "join sep [] = []"
| "join sep [x] = x"
| "join sep (x # y # ys) = x @ sep @ join sep (y # ys)"

text \<open>The local helper \<open>push\<close> of \<open>buildSummary\<close>: append the label when the status is good.\<close>

definition push :: "jsstring list \<Rightarrow> jsstring \<Rightarrow> status \<Rightarrow> jsstring list" where
  "push arr label st = (if st = Good then arr @ [label] else arr)"

definition buildSummary :: "items \<Rightarrow> int \<Rightarrow> jsstring" where
  "buildSummary its totalScore =
     (let positives = [];
          issues = [];
          positives = push positives (str ''title'') (status (title its));
          positives = push positives (str ''meta description'') (status (metaDescription its));
          positives = push positives (str ''canonical'') (status (canonical its));
          positives = push positives (str ''structured data'') (status (structuredData its));
          issues = (if status (headings its) \<noteq> Good then issues @ [str ''headings''] else issues);
          issues = (if status (images its) \<noteq> Good then issues @ [str ''image alts''] else issues);
          issues = (if status (robots its) = Bad
                    then issues @ [str ''robots (noindex/nofollow)''] else issues);
          issues = (if status (wordCount its) \<noteq> Good
                    then issues @ [str ''content length''] else issues);
          parts = [str ''SEO score: '' @ toString totalScore @ str ''/100.''];
          parts = (if length positives \<noteq> 0
                   then parts @ [str ''Strong: '' @ join (str '', '') positives @ str ''.'']
                   else parts);
          parts = (if length issues \<noteq> 0
                   then parts @ [str ''Check: '' @ join (str '', '') issues @ str ''.'']
                   else parts)
      in join (str '' '') parts)"

text \<open>
  The values that the nine extractor calls of \<open>analyzeSeo\<close> return (they are also what the
  payload reports under \<open>raw\<close>).
\<close>

record rawSignals =
  raw_title :: jsstring
  raw_metaDescription :: jsstring
  raw_metaKeywords :: jsstring
  raw_headings :: headingCounts
  raw_images :: imageStats
  raw_canonical :: jsstring
  raw_robots :: jsstring
  raw_jsonld :: jsonldStats
  raw_wordCount :: nat

record payload =
  generatedAt :: nat
  page_url :: jsstring
  score_total :: int
  raw :: rawSignals
  items :: items
  summary :: jsstring

text \<open>
  \<open>analyzeSeo\<close> from the point where the document has been read: the arguments are
  \<open>Date.now()\<close>, \<open>location.href\<close> and the nine extracted signals.
\<close>

definition analyzeSeo :: "nat \<Rightarrow> jsstring \<Rightarrow> rawSignals \<Rightarrow> payload" where
  "analyzeSeo now url r =
     (let title = scoreTitle (raw_title r);
          metaDescription = scoreMetaDescription (raw_metaDescription r);
          metaKeywords = scoreMetaKeywords (raw_metaKeywords r);
          headingCounts = raw_headings r;
          headings = scoreHeadings headingCounts;
          images = scoreImages (raw_images r);
          canonical = scoreCanonical (raw_canonical r);
          robots = scoreRobots (raw_robots r);
          structuredData = scoreStructuredData (raw_jsonld r);
          wordCount = scoreWordCount (raw_wordCount r);
          total = clamp (points title + points metaDescription + points metaKeywords
                         + points headings + points images + points canonical + points robots
                         + points structuredData + points wordCount) 0 100;
          its = \<lparr>title = title, metaDescription = metaDescription, metaKeywords = metaKeywords,
                 headings = headings\<lparr>detail := detail headings
                   @ str '' (H1:'' @ digits (h1 headingCounts)
                   @ str '', H2:'' @ digits (h2 headingCounts)
                   @ str '', H3:'' @ digits (h3 headingCounts)
                   @ str '', H4:'' @ digits (h4 headingCounts)
                   @ str '', H5:'' @ digits (h5 headingCounts)
                   @ str '', H6:'' @ digits (h6 headingCounts) @ str '')''\<rparr>,
                 images = images, canonical = canonical, robots = robots,
                 structuredData = structuredData, wordCount = wordCount\<rparr>
      in \<lparr>generatedAt = now, page_url = url, score_total = total, raw = r, items = its,
          summary = buildSummary its total\<rparr>)"

section \<open>Notions of the specification\<close>

text \<open>
  The specification speaks of a string that starts with, or contains, a literal
  "case-insensitively", and of the labels a summary clause lists. These definitions follow
  its words; the theorems below compare them with what the source computes.
\<close>

definition eq_ignore_case :: "jsstring \<Rightarrow> jsstring \<Rightarrow> bool" where
  "eq_ignore_case a b = (toLowerCase a = toLowerCase b)"

definition spec_starts_with_ci :: "jsstring \<Rightarrow> jsstring \<Rightarrow> bool" where
  "spec_starts_with_ci s p = (\<exists>u. prefix u s \<and> eq_ignore_case u p)"

definition spec_contains_ci :: "jsstring \<Rightarrow> jsstring \<Rightarrow> bool" where
  "spec_contains_ci s p = (\<exists>u. sublist u s \<and> eq_ignore_case u p)"

text \<open>
  The "Strong" list: of title, meta description, canonical and structured data, in this
  order, those whose status is good. The "Check" list: of headings, image alts, robots and
  content length, in this order, those whose status is not good, robots only when bad.
\<close>

definition spec_strong_labels :: "items \<Rightarrow> jsstring list" where
  "spec_strong_labels its =
     map fst (filter (\<lambda>(label, st). st = Good)
       [(str ''title'', status (title its)),
        (str ''meta description'', status (metaDescription its)),
        (str ''canonical'', status (canonical its)),
        (str ''structured data'', status (structuredData its))])"

definition spec_check_labels :: "items \<Rightarrow> jsstring list" where
  "spec_check_labels its =
     map fst (filter snd
       [(str ''headings'', status (headings its) \<noteq> Good),
        (str ''image alts'', status (images its) \<noteq> Good),
        (str ''robots (noindex/nofollow)'', status (robots its) = Bad),
        (str ''content length'', status (wordCount its) \<noteq> Good)])"

text \<open>A clause is left out when its list is empty; otherwise it follows after one space.\<close>

definition spec_clause :: "string \<Rightarrow> jsstring list \<Rightarrow> jsstring" where
  "spec_clause name labels =
     (if labels = [] then []
      else str '' '' @ str name @ str '': '' @ join (str '', '') labels @ str ''.'')"

section \<open>Properties of the scorers\<close>

lemma digits_small: "n < 10 \<Longrightarrow> digits n = [of_nat (48 + n)]"
  by (simp add: digits.simps)

text \<open>
  Claim C5. For every title string: an empty title scores 0 points with status bad and
  the badge \<open>Missing\<close>; a title of 10 to 60 code units, both bounds included, scores 20
  points with status good; every other non-empty title (shorter than 10 or longer than 60)
  scores 12 points with status warn.
\<close>

theorem scoreTitle_bands:
  "(t = [] \<longrightarrow>
      points (scoreTitle t) = 0 \<and> status (scoreTitle t) = Bad
      \<and> badge (scoreTitle t) = str ''Missing'')
   \<and> (10 \<le> length t \<and> length t \<le> 60 \<longrightarrow>
      points (scoreTitle t) = 20 \<and> status (scoreTitle t) = Good)
   \<and> (t \<noteq> [] \<and> (length t < 10 \<or> 60 < length t) \<longrightarrow>
      points (scoreTitle t) = 12 \<and> status (scoreTitle t) = Warn)"
  by (auto simp: scoreTitle_def Let_def)

theorem scoreTitle_bands_witness:
  "points (scoreTitle []) = 0 \<and> status (scoreTitle []) = Bad
   \<and> badge (scoreTitle []) = str ''Missing''
   \<and> points (scoreTitle (replicate 10 0x61)) = 20 \<and> status (scoreTitle (replicate 10 0x61)) = Good
   \<and> points (scoreTitle (replicate 35 0x61)) = 20 \<and> status (scoreTitle (replicate 35 0x61)) = Good
   \<and> points (scoreTitle (replicate 60 0x61)) = 20 \<and> status (scoreTitle (replicate 60 0x61)) = Good
   \<and> points (scoreTitle (str ''Home'')) = 12 \<and> status (scoreTitle (str ''Home'')) = Warn
   \<and> points (scoreTitle (replicate 61 0x61)) = 12 \<and> status (scoreTitle (replicate 61 0x61)) = Warn"
  using scoreTitle_bands [of "[]"] scoreTitle_bands [of "replicate 10 0x61"]
    scoreTitle_bands [of "replicate 35 0x61"] scoreTitle_bands [of "replicate 60 0x61"]
    scoreTitle_bands [of "str ''Home''"] scoreTitle_bands [of "replicate 61 0x61"]
  by (simp add: str_def)

text \<open>
  Claim C2. For every structured-data record: no block (\<open>count = 0\<close>) scores 0 points
  with status warn; at least one block, at least one of them parsed and no parse error,
  scores 10 points with status good, and so does a record of the data model
  (\<open>parsedCount + parseErrors \<le> count\<close>) with at least one block and all blocks parsed
  (\<open>parsedCount = count\<close>); at least one parsed block together with at least one parse
  error scores 5 points with status warn. In particular \<open>{count:2, parsedCount:2,
  parseErrors:0}\<close> gives 10 and good, and \<open>{count:2, parsedCount:1, parseErrors:1}\<close>
  gives 5 and warn.
\<close>

theorem scoreStructuredData_bands:
  "(count j = 0 \<longrightarrow>
      points (scoreStructuredData j) = 0 \<and> status (scoreStructuredData j) = Warn)
   \<and> (1 \<le> count j \<and> 1 \<le> parsedCount j \<and> parseErrors j = 0 \<longrightarrow>
      points (scoreStructuredData j) = 10 \<and> status (scoreStructuredData j) = Good)
   \<and> (parsedCount j + parseErrors j \<le> count j \<and> 1 \<le> count j \<and> parsedCount j = count j \<longrightarrow>
      points (scoreStructuredData j) = 10 \<and> status (scoreStructuredData j) = Good)
   \<and> (1 \<le> count j \<and> 1 \<le> parsedCount j \<and> 1 \<le> parseErrors j \<longrightarrow>
      points (scoreStructuredData j) = 5 \<and> status (scoreStructuredData j) = Warn)
   \<and> points (scoreStructuredData \<lparr>count = 2, parsedCount = 2, parseErrors = 0\<rparr>) = 10
   \<and> status (scoreStructuredData \<lparr>count = 2, parsedCount = 2, parseErrors = 0\<rparr>) = Good
   \<and> points (scoreStructuredData \<lparr>count = 2, parsedCount = 1, parseErrors = 1\<rparr>) = 5
   \<and> status (scoreStructuredData \<lparr>count = 2, parsedCount = 1, parseErrors = 1\<rparr>) = Warn"
  by (auto simp: scoreStructuredData_def Let_def)

theorem scoreStructuredData_bands_witness:
  "points (scoreStructuredData \<lparr>count = 0, parsedCount = 0, parseErrors = 0\<rparr>) = 0
   \<and> status (scoreStructuredData \<lparr>count = 0, parsedCount = 0, parseErrors = 0\<rparr>) = Warn
   \<and> points (scoreStructuredData \<lparr>count = 3, parsedCount = 3, parseErrors = 0\<rparr>) = 10
   \<and> status (scoreStructuredData \<lparr>count = 3, parsedCount = 3, parseErrors = 0\<rparr>) = Good
   \<and> points (scoreStructuredData \<lparr>count = 3, parsedCount = 2, parseErrors = 1\<rparr>) = 5
   \<and> status (scoreStructuredData \<lparr>count = 3, parsedCount = 2, parseErrors = 1\<rparr>) = Warn"
  using scoreStructuredData_bands [of "\<lparr>count = 0, parsedCount = 0, parseErrors = 0\<rparr>"]
    scoreStructuredData_bands [of "\<lparr>count = 3, parsedCount = 3, parseErrors = 0\<rparr>"]
    scoreStructuredData_bands [of "\<lparr>count = 3, parsedCount = 2, parseErrors = 1\<rparr>"]
  by simp

text \<open>
  Claim C6. For every heading-count record over \<open>h1\<close>..\<open>h6\<close>: when the six counts sum
  to 0 the headings scorer gives 0 points with status bad; otherwise exactly one H1 gives
  15 points, status good and the badge \<open>H1\<times>1\<close>; no H1 gives 7 points, status warn and the
  badge \<open>No H1\<close>; two or more H1 give 7 points with status warn.
\<close>

theorem scoreHeadings_bands:
  "(h1 c + h2 c + h3 c + h4 c + h5 c + h6 c = 0 \<longrightarrow>
      points (scoreHeadings c) = 0 \<and> status (scoreHeadings c) = Bad)
   \<and> (h1 c + h2 c + h3 c + h4 c + h5 c + h6 c \<noteq> 0 \<and> h1 c = 1 \<longrightarrow>
      points (scoreHeadings c) = 15 \<and> status (scoreHeadings c) = Good
      \<and> badge (scoreHeadings c) = str ''H1'' @ [0xD7] @ str ''1'')
   \<and> (h1 c + h2 c + h3 c + h4 c + h5 c + h6 c \<noteq> 0 \<and> h1 c = 0 \<longrightarrow>
      points (scoreHeadings c) = 7 \<and> status (scoreHeadings c) = Warn
      \<and> badge (scoreHeadings c) = str ''No H1'')
   \<and> (2 \<le> h1 c \<longrightarrow>
      points (scoreHeadings c) = 7 \<and> status (scoreHeadings c) = Warn)"
  by (auto simp: scoreHeadings_def Let_def digits_small str_def)

theorem scoreHeadings_bands_witness:
  "points (scoreHeadings \<lparr>h1 = 0, h2 = 0, h3 = 0, h4 = 0, h5 = 0, h6 = 0\<rparr>) = 0
   \<and> status (scoreHeadings \<lparr>h1 = 0, h2 = 0, h3 = 0, h4 = 0, h5 = 0, h6 = 0\<rparr>) = Bad
   \<and> points (scoreHeadings \<lparr>h1 = 1, h2 = 3, h3 = 0, h4 = 0, h5 = 0, h6 = 0\<rparr>) = 15
   \<and> status (scoreHeadings \<lparr>h1 = 1, h2 = 3, h3 = 0, h4 = 0, h5 = 0, h6 = 0\<rparr>) = Good
   \<and> badge (scoreHeadings \<lparr>h1 = 1, h2 = 3, h3 = 0, h4 = 0, h5 = 0, h6 = 0\<rparr>)
       = str ''H1'' @ [0xD7] @ str ''1''
   \<and> points (scoreHeadings \<lparr>h1 = 0, h2 = 2, h3 = 0, h4 = 0, h5 = 0, h6 = 0\<rparr>) = 7
   \<and> status (scoreHeadings \<lparr>h1 = 0, h2 = 2, h3 = 0, h4 = 0, h5 = 0, h6 = 0\<rparr>) = Warn
   \<and> badge (scoreHeadings \<lparr>h1 = 0, h2 = 2, h3 = 0, h4 = 0, h5 = 0, h6 = 0\<rparr>) = str ''No H1''
   \<and> points (scoreHeadings \<lparr>h1 = 2, h2 = 0, h3 = 0, h4 = 0, h5 = 0, h6 = 0\<rparr>) = 7
   \<and> status (scoreHeadings \<lparr>h1 = 2, h2 = 0, h3 = 0, h4 = 0, h5 = 0, h6 = 0\<rparr>) = Warn"
  using scoreHeadings_bands [of "\<lparr>h1 = 0, h2 = 0, h3 = 0, h4 = 0, h5 = 0, h6 = 0\<rparr>"]
    scoreHeadings_bands [of "\<lparr>h1 = 1, h2 = 3, h3 = 0, h4 = 0, h5 = 0, h6 = 0\<rparr>"]
    scoreHeadings_bands [of "\<lparr>h1 = 0, h2 = 2, h3 = 0, h4 = 0, h5 = 0, h6 = 0\<rparr>"]
    scoreHeadings_bands [of "\<lparr>h1 = 2, h2 = 0, h3 = 0, h4 = 0, h5 = 0, h6 = 0\<rparr>"]
  by simp

subsection \<open>Case-insensitive matching\<close>

lemma canon_unat:
  "unat (canonicalize c) = (if 97 \<le> unat c \<and> unat c \<le> 122 then unat c - 32 else unat c)"
proof -
  have "(32::16 word) \<le> c" if "0x61 \<le> c"
    using that by (simp add: word_le_nat_alt)
  then show ?thesis
    unfolding canonicalize_def
    by (simp add: word_le_nat_alt unat_sub)
qed

lemma lower_unat:
  "unat (toLowerCase_unit c) =
     (if (65 \<le> unat c \<and> unat c \<le> 90) \<or> (192 \<le> unat c \<and> unat c \<le> 222 \<and> unat c \<noteq> 215)
      then unat c + 32 else unat c)"
proof -
  have "unat (c + 0x20) = unat c + 32" if "unat c \<le> 222"
    using that by (simp add: unat_word_ariths unat_of_nat)
  then show ?thesis
    unfolding toLowerCase_unit_def
    by (auto simp add: word_le_nat_alt word_unat_eq_iff)
qed

lemma canon_lower_unit:
  "a < 0x80 \<Longrightarrow> (canonicalize c = canonicalize a) = (toLowerCase_unit c = toLowerCase_unit a)"
  unfolding word_unat_eq_iff canon_unat lower_unat word_less_nat_alt
  by (simp split: if_splits) arith

lemma canon_lower_list:
  "\<forall>a\<in>set p. a < 0x80 \<Longrightarrow>
   (map canonicalize u = map canonicalize p) = (toLowerCase u = toLowerCase p)"
  unfolding toLowerCase_def
  by (induction u p rule: list_induct2') (auto simp: canon_lower_unit)

lemma match_ci_eq:
  "match_ci p s =
     (if length p \<le> length s \<and> map canonicalize (take (length p) s) = map canonicalize p
      then Some (drop (length p) s) else None)"
  by (induction p s rule: match_ci.induct) auto

lemma match_ci_append:
  "match_ci (p @ q) s = (case match_ci p s of None \<Rightarrow> None | Some r \<Rightarrow> match_ci q r)"
  by (induction p s rule: match_ci.induct) auto

lemma test_http_alt:
  "test_http href =
     (match_ci (str ''http://'') href \<noteq> None \<or> match_ci (str ''https://'') href \<noteq> None)"
proof -
  have a: "str ''http://'' = str ''http'' @ str ''://''"
    and b: "str ''https://'' = str ''http'' @ str ''s'' @ str ''://''"
    by (simp_all add: str_def)
  show ?thesis
    unfolding a b match_ci_append test_http_def
    by (auto split: option.splits)
qed

lemma length_toLowerCase: "length (toLowerCase s) = length s"
  by (simp add: toLowerCase_def)

lemma spec_starts_with_ci_take:
  "spec_starts_with_ci s p =
     (length p \<le> length s \<and> toLowerCase (take (length p) s) = toLowerCase p)"
proof
  assume "spec_starts_with_ci s p"
  then obtain u where u: "prefix u s" "toLowerCase u = toLowerCase p"
    by (auto simp: spec_starts_with_ci_def eq_ignore_case_def)
  from u(2) have "length u = length p"
    using length_toLowerCase by metis
  with u(1) have "u = take (length p) s" "length p \<le> length s"
    by (auto simp: prefix_def)
  with u(2) show "length p \<le> length s \<and> toLowerCase (take (length p) s) = toLowerCase p"
    by simp
next
  assume "length p \<le> length s \<and> toLowerCase (take (length p) s) = toLowerCase p"
  then show "spec_starts_with_ci s p"
    unfolding spec_starts_with_ci_def eq_ignore_case_def
    by (intro exI [of _ "take (length p) s"]) (simp add: take_is_prefix)
qed

lemma match_ci_spec:
  "\<forall>a\<in>set p. a < 0x80 \<Longrightarrow> (match_ci p s \<noteq> None) = spec_starts_with_ci s p"
  by (simp add: match_ci_eq spec_starts_with_ci_take canon_lower_list)

lemma test_http_spec:
  "test_http href =
     (spec_starts_with_ci href (str ''http://'') \<or> spec_starts_with_ci href (str ''https://''))"
proof -
  have "\<forall>a\<in>set (str ''http://''). a < 0x80" "\<forall>a\<in>set (str ''https://''). a < 0x80"
    by (simp_all add: str_def)
  then show ?thesis
    unfolding test_http_alt
    using match_ci_spec [of "str ''http://''" href] match_ci_spec [of "str ''https://''" href]
    by blast
qed

lemma includes_js_sublist: "includes_js s n = sublist n s"
  by (induction s) (auto simp: sublist_Cons_right)

lemma spec_contains_ci_includes:
  assumes "toLowerCase p = p"
  shows "spec_contains_ci s p = includes_js (toLowerCase s) p"
proof
  assume "spec_contains_ci s p"
  then obtain u where u: "sublist u s" "toLowerCase u = p"
    using assms by (auto simp: spec_contains_ci_def eq_ignore_case_def)
  from u(1) have "sublist (toLowerCase u) (toLowerCase s)"
    unfolding toLowerCase_def by (rule map_mono_sublist)
  with u(2) show "includes_js (toLowerCase s) p"
    by (simp add: includes_js_sublist)
next
  assume "includes_js (toLowerCase s) p"
  then have "sublist p (map toLowerCase_unit s)"
    by (simp add: includes_js_sublist toLowerCase_def)
  then obtain u where "sublist u s" "p = map toLowerCase_unit u"
    using sublist_map_rightE by blast
  then show "spec_contains_ci s p"
    using assms by (auto simp: spec_contains_ci_def eq_ignore_case_def toLowerCase_def)
qed

lemma lower_literals:
  "toLowerCase (str ''noindex'') = str ''noindex''"
  "toLowerCase (str ''nofollow'') = str ''nofollow''"
  by (simp_all add: toLowerCase_def toLowerCase_unit_def str_def)

text \<open>
  Claim C9. For every canonical href: an empty href scores 0 points with status warn; a
  non-empty href that starts with \<open>http://\<close> or \<open>https://\<close>, letter case ignored, or
  with \<open>/\<close>, scores 5 points with status good; every other non-empty href scores 3
  points with status warn, for instance \<open>ftp://example.com\<close>.
\<close>

theorem scoreCanonical_bands:
  "(href = [] \<longrightarrow>
      points (scoreCanonical href) = 0 \<and> status (scoreCanonical href) = Warn)
   \<and> (href \<noteq> [] \<and> (spec_starts_with_ci href (str ''http://'')
                    \<or> spec_starts_with_ci href (str ''https://'')
                    \<or> prefix (str ''/'') href) \<longrightarrow>
      points (scoreCanonical href) = 5 \<and> status (scoreCanonical href) = Good)
   \<and> (href \<noteq> [] \<and> \<not> (spec_starts_with_ci href (str ''http://'')
                       \<or> spec_starts_with_ci href (str ''https://'')
                       \<or> prefix (str ''/'') href) \<longrightarrow>
      points (scoreCanonical href) = 3 \<and> status (scoreCanonical href) = Warn)
   \<and> points (scoreCanonical (str ''ftp://example.com'')) = 3
   \<and> status (scoreCanonical (str ''ftp://example.com'')) = Warn"
proof -
  have "\<not> test_http (str ''ftp://example.com'')"
    by (simp add: test_http_def str_def canonicalize_def)
  moreover have "\<not> startsWith (str ''ftp://example.com'') (str ''/'')"
    by (simp add: startsWith_def str_def)
  moreover have "str ''ftp://example.com'' \<noteq> []"
    by (simp add: str_def)
  ultimately have "points (scoreCanonical (str ''ftp://example.com'')) = 3
      \<and> status (scoreCanonical (str ''ftp://example.com'')) = Warn"
    by (simp add: scoreCanonical_def)
  then show ?thesis
    by (auto simp: scoreCanonical_def Let_def startsWith_def test_http_spec)
qed

theorem scoreCanonical_bands_witness:
  "points (scoreCanonical []) = 0 \<and> status (scoreCanonical []) = Warn
   \<and> points (scoreCanonical (str ''HTTPS://Example.com/a'')) = 5
   \<and> status (scoreCanonical (str ''HTTPS://Example.com/a'')) = Good
   \<and> points (scoreCanonical (str ''http://example.com/'')) = 5
   \<and> status (scoreCanonical (str ''http://example.com/'')) = Good
   \<and> points (scoreCanonical (str ''/about'')) = 5
   \<and> status (scoreCanonical (str ''/about'')) = Good
   \<and> points (scoreCanonical (str ''example.com/page'')) = 3
   \<and> status (scoreCanonical (str ''example.com/page'')) = Warn"
proof -
  have a: "spec_starts_with_ci (str ''HTTPS://Example.com/a'') (str ''https://'')"
    by (simp add: spec_starts_with_ci_take str_def toLowerCase_def toLowerCase_unit_def)
  have b: "spec_starts_with_ci (str ''http://example.com/'') (str ''http://'')"
    by (simp add: spec_starts_with_ci_take str_def toLowerCase_def toLowerCase_unit_def)
  have c: "prefix (str ''/'') (str ''/about'')"
    by (simp add: str_def)
  have d: "\<not> (spec_starts_with_ci (str ''example.com/page'') (str ''http://'')
            \<or> spec_starts_with_ci (str ''example.com/page'') (str ''https://'')
            \<or> prefix (str ''/'') (str ''example.com/page''))"
    by (simp add: spec_starts_with_ci_take str_def toLowerCase_def toLowerCase_unit_def)
  have e: "str ''HTTPS://Example.com/a'' \<noteq> []" "str ''http://example.com/'' \<noteq> []"
    "str ''/about'' \<noteq> []" "str ''example.com/page'' \<noteq> []"
    by (simp_all add: str_def)
  have 1: "points (scoreCanonical []) = 0 \<and> status (scoreCanonical []) = Warn"
    using scoreCanonical_bands [of "[]"] by simp
  have 2: "points (scoreCanonical (str ''HTTPS://Example.com/a'')) = 5
      \<and> status (scoreCanonical (str ''HTTPS://Example.com/a'')) = Good"
    using scoreCanonical_bands [of "str ''HTTPS://Example.com/a''"] a e by simp
  have 3: "points (scoreCanonical (str ''http://example.com/'')) = 5
      \<and> status (scoreCanonical (str ''http://example.com/'')) = Good"
    using scoreCanonical_bands [of "str ''http://example.com/''"] b e by simp
  have 4: "points (scoreCanonical (str ''/about'')) = 5
      \<and> status (scoreCanonical (str ''/about'')) = Good"
    using scoreCanonical_bands [of "str ''/about''"] c e by simp
  have 5: "points (scoreCanonical (str ''example.com/page'')) = 3
      \<and> status (scoreCanonical (str ''example.com/page'')) = Warn"
    using scoreCanonical_bands [of "str ''example.com/page''"] d e by simp
  show ?thesis
    using 1 2 3 4 5 by simp
qed

text \<open>
  Claim C7. For every robots directive: an empty directive scores 6 points with status
  good; a non-empty one that contains \<open>noindex\<close> or \<open>nofollow\<close> as a substring, letter
  case ignored, scores 0 points with status bad, for instance \<open>noindex, follow\<close>; every
  other non-empty directive scores 6 points with status good. Nothing but the substring
  test decides: the directive is not parsed.
\<close>

theorem scoreRobots_bands:
  "(r = [] \<longrightarrow> points (scoreRobots r) = 6 \<and> status (scoreRobots r) = Good)
   \<and> (r \<noteq> [] \<and> (spec_contains_ci r (str ''noindex'') \<or> spec_contains_ci r (str ''nofollow'')) \<longrightarrow>
      points (scoreRobots r) = 0 \<and> status (scoreRobots r) = Bad)
   \<and> (r \<noteq> [] \<and> \<not> (spec_contains_ci r (str ''noindex'') \<or> spec_contains_ci r (str ''nofollow'')) \<longrightarrow>
      points (scoreRobots r) = 6 \<and> status (scoreRobots r) = Good)
   \<and> points (scoreRobots (str ''noindex, follow'')) = 0
   \<and> status (scoreRobots (str ''noindex, follow'')) = Bad"
proof -
  have "includes_js (toLowerCase (str ''noindex, follow'')) (str ''noindex'')"
    by (simp add: toLowerCase_def toLowerCase_unit_def str_def)
  moreover have "str ''noindex, follow'' \<noteq> []"
    by (simp add: str_def)
  ultimately have "points (scoreRobots (str ''noindex, follow'')) = 0
      \<and> status (scoreRobots (str ''noindex, follow'')) = Bad"
    by (simp add: scoreRobots_def)
  then show ?thesis
    by (auto simp: scoreRobots_def Let_def spec_contains_ci_includes lower_literals)
qed

theorem scoreRobots_bands_witness:
  "points (scoreRobots []) = 6 \<and> status (scoreRobots []) = Good
   \<and> points (scoreRobots (str ''NoIndex'')) = 0 \<and> status (scoreRobots (str ''NoIndex'')) = Bad
   \<and> points (scoreRobots (str ''index, NOFOLLOW'')) = 0
   \<and> status (scoreRobots (str ''index, NOFOLLOW'')) = Bad
   \<and> points (scoreRobots (str ''index, follow'')) = 6
   \<and> status (scoreRobots (str ''index, follow'')) = Good"
proof -
  have a: "spec_contains_ci (str ''NoIndex'') (str ''noindex'')"
    by (simp add: spec_contains_ci_includes lower_literals)
       (simp add: toLowerCase_def toLowerCase_unit_def str_def)
  have b: "spec_contains_ci (str ''index, NOFOLLOW'') (str ''nofollow'')"
    by (simp add: spec_contains_ci_includes lower_literals)
       (simp add: toLowerCase_def toLowerCase_unit_def str_def)
  have c: "\<not> (spec_contains_ci (str ''index, follow'') (str ''noindex'')
            \<or> spec_contains_ci (str ''index, follow'') (str ''nofollow''))"
    by (simp add: spec_contains_ci_includes lower_literals)
       (simp add: toLowerCase_def toLowerCase_unit_def str_def)
  have e: "str ''NoIndex'' \<noteq> []" "str ''index, NOFOLLOW'' \<noteq> []" "str ''index, follow'' \<noteq> []"
    by (simp_all add: str_def)
  have 1: "points (scoreRobots []) = 6 \<and> status (scoreRobots []) = Good"
    using scoreRobots_bands [of "[]"] by simp
  have 2: "points (scoreRobots (str ''NoIndex'')) = 0 \<and> status (scoreRobots (str ''NoIndex'')) = Bad"
    using scoreRobots_bands [of "str ''NoIndex''"] a e by simp
  have 3: "points (scoreRobots (str ''index, NOFOLLOW'')) = 0
      \<and> status (scoreRobots (str ''index, NOFOLLOW'')) = Bad"
    using scoreRobots_bands [of "str ''index, NOFOLLOW''"] b e by simp
  have 4: "points (scoreRobots (str ''index, follow'')) = 6
      \<and> status (scoreRobots (str ''index, follow'')) = Good"
    using scoreRobots_bands [of "str ''index, follow''"] c e by simp
  show ?thesis
    using 1 2 3 4 by simp
qed

section \<open>Properties of the extractors\<close>





text \<open>
  An example: one block that parses, one of white space only, one that fails to parse and
  one without text.
\<close>

lemma getJsonLdBlocks_example:
  "getJsonLdBlocks (\<lambda>s. if s = str ''{}'' then Some () else None)
     [str '' {} '', str ''   '', str ''{oops'', []]
   = \<lparr>count = 4, parsedCount = 1, parseErrors = 1\<rparr>"
  by code_simp

section \<open>Properties of the summary\<close>

lemma buildSummary_parts:
  "buildSummary its n =
     join (str '' '')
       ([str ''SEO score: '' @ toString n @ str ''/100.'']
        @ (if spec_strong_labels its = [] then []
           else [str ''Strong: '' @ join (str '', '') (spec_strong_labels its) @ str ''.''])
        @ (if spec_check_labels its = [] then []
           else [str ''Check: '' @ join (str '', '') (spec_check_labels its) @ str ''.'']))"
proof -
  have p: "push (push (push (push [] (str ''title'') (status (title its)))
                  (str ''meta description'') (status (metaDescription its)))
                  (str ''canonical'') (status (canonical its)))
                  (str ''structured data'') (status (structuredData its)) = spec_strong_labels its"
    by (simp add: push_def spec_strong_labels_def)
  have i: "(let issues = [];
          issues = (if status (headings its) \<noteq> Good then issues @ [str ''headings''] else issues);
          issues = (if status (images its) \<noteq> Good then issues @ [str ''image alts''] else issues);
          issues = (if status (robots its) = Bad
                    then issues @ [str ''robots (noindex/nofollow)''] else issues);
          issues = (if status (wordCount its) \<noteq> Good
                    then issues @ [str ''content length''] else issues) in issues)
       = spec_check_labels its"
    by (simp add: spec_check_labels_def Let_def)
  show ?thesis
    unfolding buildSummary_def Let_def using p i [unfolded Let_def] by simp
qed

lemma buildSummary_spec:
  "buildSummary its n =
     str ''SEO score: '' @ toString n @ str ''/100.''
     @ spec_clause ''Strong'' (spec_strong_labels its)
     @ spec_clause ''Check'' (spec_check_labels its)"
  by (simp add: buildSummary_parts spec_clause_def str_def)

text \<open>
  Claim C8. For all nine scored items and every total, the summary is the sentence
  \<open>SEO score: n/100.\<close> followed by the "Strong" clause and then the "Check" clause.
  The "Strong" clause lists, in the order title, meta description, canonical, structured
  data, exactly those of the four whose status is good. The "Check" clause lists, in the
  order headings, image alts, robots, content length, each of them whose status is not
  good, except that robots is listed only when its status is bad. A clause with an empty
  list is left out. Where the first four are good, headings, images and content length are
  not good and robots is good, the summary is the sentence followed by
  \<open>Strong: title, meta description, canonical, structured data.\<close> and
  \<open>Check: headings, image alts, content length.\<close>
\<close>

theorem buildSummary_clauses:
  "buildSummary its n =
     str ''SEO score: '' @ toString n @ str ''/100.''
     @ spec_clause ''Strong'' (spec_strong_labels its)
     @ spec_clause ''Check'' (spec_check_labels its)
   \<and> (status (title its) = Good \<and> status (metaDescription its) = Good
      \<and> status (canonical its) = Good \<and> status (structuredData its) = Good
      \<and> status (headings its) \<noteq> Good \<and> status (images its) \<noteq> Good
      \<and> status (wordCount its) \<noteq> Good \<and> status (robots its) = Good \<longrightarrow>
      buildSummary its n =
        str ''SEO score: '' @ toString n
        @ str ''/100. Strong: title, meta description, canonical, structured data.''
        @ str '' Check: headings, image alts, content length.'')"
  unfolding buildSummary_spec
  by (simp add: spec_clause_def spec_strong_labels_def spec_check_labels_def str_def)

theorem buildSummary_clauses_witness:
  "buildSummary
     \<lparr>title = \<lparr>points = 20, status = Good, badge = [], detail = []\<rparr>,
      metaDescription = \<lparr>points = 20, status = Good, badge = [], detail = []\<rparr>,
      metaKeywords = \<lparr>points = 0, status = Warn, badge = [], detail = []\<rparr>,
      headings = \<lparr>points = 7, status = Warn, badge = [], detail = []\<rparr>,
      images = \<lparr>points = 2, status = Bad, badge = [], detail = []\<rparr>,
      canonical = \<lparr>points = 5, status = Good, badge = [], detail = []\<rparr>,
      robots = \<lparr>points = 6, status = Good, badge = [], detail = []\<rparr>,
      structuredData = \<lparr>points = 10, status = Good, badge = [], detail = []\<rparr>,
      wordCount = \<lparr>points = 2, status = Warn, badge = [], detail = []\<rparr>\<rparr> 72
   = str ''SEO score: 72/100. Strong: title, meta description, canonical, structured data.''
     @ str '' Check: headings, image alts, content length.''"
  using buildSummary_clauses [of
     "\<lparr>title = \<lparr>points = 20, status = Good, badge = [], detail = []\<rparr>,
      metaDescription = \<lparr>points = 20, status = Good, badge = [], detail = []\<rparr>,
      metaKeywords = \<lparr>points = 0, status = Warn, badge = [], detail = []\<rparr>,
      headings = \<lparr>points = 7, status = Warn, badge = [], detail = []\<rparr>,
      images = \<lparr>points = 2, status = Bad, badge = [], detail = []\<rparr>,
      canonical = \<lparr>points = 5, status = Good, badge = [], detail = []\<rparr>,
      robots = \<lparr>points = 6, status = Good, badge = [], detail = []\<rparr>,
      structuredData = \<lparr>points = 10, status = Good, badge = [], detail = []\<rparr>,
      wordCount = \<lparr>points = 2, status = Warn, badge = [], detail = []\<rparr>\<rparr>" 72,
     THEN conjunct2]
  by (simp add: toString_def digits.simps str_def)

section \<open>Properties of the aggregation\<close>

lemma scoreTitle_points: "points (scoreTitle t) \<in> {0, 12, 20}"
  by (simp add: scoreTitle_def Let_def)

lemma scoreMetaDescription_points: "points (scoreMetaDescription d) \<in> {0, 12, 20}"
  by (simp add: scoreMetaDescription_def Let_def)

lemma scoreMetaKeywords_points: "points (scoreMetaKeywords k) \<in> {0, 3}"
  by (simp add: scoreMetaKeywords_def Let_def)

lemma scoreHeadings_points: "points (scoreHeadings c) \<in> {0, 7, 15}"
  by (simp add: scoreHeadings_def Let_def)

lemma scoreImages_points: "points (scoreImages i) \<in> {2, 6, 10}"
  by (simp add: scoreImages_def Let_def)

lemma scoreCanonical_points: "points (scoreCanonical h) \<in> {0, 3, 5}"
  by (simp add: scoreCanonical_def Let_def)

lemma scoreRobots_points: "points (scoreRobots r) \<in> {0, 6}"
  by (simp add: scoreRobots_def Let_def)

lemma scoreStructuredData_points: "points (scoreStructuredData j) \<in> {0, 5, 10}"
  by (simp add: scoreStructuredData_def Let_def)

lemma scoreWordCount_points: "points (scoreWordCount w) \<in> {0, 2, 6, 10}"
  by (simp add: scoreWordCount_def Let_def)

lemma analyzeSeo_items:
  "title (items (analyzeSeo now url r)) = scoreTitle (raw_title r)"
  "metaDescription (items (analyzeSeo now url r)) = scoreMetaDescription (raw_metaDescription r)"
  "metaKeywords (items (analyzeSeo now url r)) = scoreMetaKeywords (raw_metaKeywords r)"
  "points (headings (items (analyzeSeo now url r))) = points (scoreHeadings (raw_headings r))"
  "status (headings (items (analyzeSeo now url r))) = status (scoreHeadings (raw_headings r))"
  "badge (headings (items (analyzeSeo now url r))) = badge (scoreHeadings (raw_headings r))"
  "images (items (analyzeSeo now url r)) = scoreImages (raw_images r)"
  "canonical (items (analyzeSeo now url r)) = scoreCanonical (raw_canonical r)"
  "robots (items (analyzeSeo now url r)) = scoreRobots (raw_robots r)"
  "structuredData (items (analyzeSeo now url r)) = scoreStructuredData (raw_jsonld r)"
  "wordCount (items (analyzeSeo now url r)) = scoreWordCount (raw_wordCount r)"
  by (simp_all add: analyzeSeo_def Let_def)

lemma analyzeSeo_total:
  "score_total (analyzeSeo now url r) =
     clamp (points (scoreTitle (raw_title r)) +
            points (scoreMetaDescription (raw_metaDescription r)) +
            points (scoreMetaKeywords (raw_metaKeywords r)) +
            points (scoreHeadings (raw_headings r)) +
            points (scoreImages (raw_images r)) +
            points (scoreCanonical (raw_canonical r)) +
            points (scoreRobots (raw_robots r)) +
            points (scoreStructuredData (raw_jsonld r)) +
            points (scoreWordCount (raw_wordCount r))) 0 100"
  by (simp add: analyzeSeo_def Let_def)

text \<open>
  Claim C1. For all extracted signals, the total of \<open>analyzeSeo\<close> is the sum of the
  points that the nine scorers give to these signals, clamped to \<open>[0, 100]\<close>, and the
  nine items of the payload carry exactly these points. Every scorer, on every input,
  keeps its points between 0 and the maximum of its signal (20, 20, 3, 15, 10, 5, 6, 10,
  10), so the sum is at most 99, the clamp returns the sum unchanged, and the total lies
  in \<open>[0, 100]\<close>.
\<close>

theorem analyzeSeo_total_clamped_sum:
  "(let s = points (scoreTitle (raw_title r))
            + points (scoreMetaDescription (raw_metaDescription r))
            + points (scoreMetaKeywords (raw_metaKeywords r))
            + points (scoreHeadings (raw_headings r))
            + points (scoreImages (raw_images r))
            + points (scoreCanonical (raw_canonical r))
            + points (scoreRobots (raw_robots r))
            + points (scoreStructuredData (raw_jsonld r))
            + points (scoreWordCount (raw_wordCount r))
    in score_total (analyzeSeo now url r) = clamp s 0 100
       \<and> points (title (items (analyzeSeo now url r))) = points (scoreTitle (raw_title r))
       \<and> points (metaDescription (items (analyzeSeo now url r)))
           = points (scoreMetaDescription (raw_metaDescription r))
       \<and> points (metaKeywords (items (analyzeSeo now url r)))
           = points (scoreMetaKeywords (raw_metaKeywords r))
       \<and> points (headings (items (analyzeSeo now url r))) = points (scoreHeadings (raw_headings r))
       \<and> points (images (items (analyzeSeo now url r))) = points (scoreImages (raw_images r))
       \<and> points (canonical (items (analyzeSeo now url r)))
           = points (scoreCanonical (raw_canonical r))
       \<and> points (robots (items (analyzeSeo now url r))) = points (scoreRobots (raw_robots r))
       \<and> points (structuredData (items (analyzeSeo now url r)))
           = points (scoreStructuredData (raw_jsonld r))
       \<and> points (wordCount (items (analyzeSeo now url r)))
           = points (scoreWordCount (raw_wordCount r))
       \<and> 0 \<le> s \<and> s \<le> 99
       \<and> clamp s 0 100 = s
       \<and> score_total (analyzeSeo now url r) = s
       \<and> 0 \<le> score_total (analyzeSeo now url r) \<and> score_total (analyzeSeo now url r) \<le> 100)
   \<and> 0 \<le> points (scoreTitle t) \<and> points (scoreTitle t) \<le> 20
   \<and> 0 \<le> points (scoreMetaDescription d) \<and> points (scoreMetaDescription d) \<le> 20
   \<and> 0 \<le> points (scoreMetaKeywords k) \<and> points (scoreMetaKeywords k) \<le> 3
   \<and> 0 \<le> points (scoreHeadings c) \<and> points (scoreHeadings c) \<le> 15
   \<and> 0 \<le> points (scoreImages i) \<and> points (scoreImages i) \<le> 10
   \<and> 0 \<le> points (scoreCanonical h) \<and> points (scoreCanonical h) \<le> 5
   \<and> 0 \<le> points (scoreRobots rb) \<and> points (scoreRobots rb) \<le> 6
   \<and> 0 \<le> points (scoreStructuredData j) \<and> points (scoreStructuredData j) \<le> 10
   \<and> 0 \<le> points (scoreWordCount w) \<and> points (scoreWordCount w) \<le> 10"
proof -
  have bt: "0 \<le> points (scoreTitle x) \<and> points (scoreTitle x) \<le> 20" for x
    using scoreTitle_points [of x] by auto
  have bd: "0 \<le> points (scoreMetaDescription x) \<and> points (scoreMetaDescription x) \<le> 20" for x
    using scoreMetaDescription_points [of x] by auto
  have bk: "0 \<le> points (scoreMetaKeywords x) \<and> points (scoreMetaKeywords x) \<le> 3" for x
    using scoreMetaKeywords_points [of x] by auto
  have bh: "0 \<le> points (scoreHeadings x) \<and> points (scoreHeadings x) \<le> 15" for x
    using scoreHeadings_points [of x] by auto
  have bi: "0 \<le> points (scoreImages x) \<and> points (scoreImages x) \<le> 10" for x
    using scoreImages_points [of x] by auto
  have bc: "0 \<le> points (scoreCanonical x) \<and> points (scoreCanonical x) \<le> 5" for x
    using scoreCanonical_points [of x] by auto
  have br: "0 \<le> points (scoreRobots x) \<and> points (scoreRobots x) \<le> 6" for x
    using scoreRobots_points [of x] by auto
  have bj: "0 \<le> points (scoreStructuredData x) \<and> points (scoreStructuredData x) \<le> 10" for x
    using scoreStructuredData_points [of x] by auto
  have bw: "0 \<le> points (scoreWordCount x) \<and> points (scoreWordCount x) \<le> 10" for x
    using scoreWordCount_points [of x] by auto
  define s where "s = points (scoreTitle (raw_title r))
            + points (scoreMetaDescription (raw_metaDescription r))
            + points (scoreMetaKeywords (raw_metaKeywords r))
            + points (scoreHeadings (raw_headings r))
            + points (scoreImages (raw_images r))
            + points (scoreCanonical (raw_canonical r))
            + points (scoreRobots (raw_robots r))
            + points (scoreStructuredData (raw_jsonld r))
            + points (scoreWordCount (raw_wordCount r))"
  have tot: "score_total (analyzeSeo now url r) = clamp s 0 100"
    unfolding s_def by (rule analyzeSeo_total)
  have rng: "0 \<le> s \<and> s \<le> 99"
    unfolding s_def
    using bt [of "raw_title r"] bd [of "raw_metaDescription r"] bk [of "raw_metaKeywords r"]
      bh [of "raw_headings r"] bi [of "raw_images r"] bc [of "raw_canonical r"]
      br [of "raw_robots r"] bj [of "raw_jsonld r"] bw [of "raw_wordCount r"]
    by linarith
  then have cl: "clamp s 0 100 = s"
    by (simp add: clamp_def)
  have first: "score_total (analyzeSeo now url r) = clamp s 0 100
       \<and> points (title (items (analyzeSeo now url r))) = points (scoreTitle (raw_title r))
       \<and> points (metaDescription (items (analyzeSeo now url r)))
           = points (scoreMetaDescription (raw_metaDescription r))
       \<and> points (metaKeywords (items (analyzeSeo now url r)))
           = points (scoreMetaKeywords (raw_metaKeywords r))
       \<and> points (headings (items (analyzeSeo now url r))) = points (scoreHeadings (raw_headings r))
       \<and> points (images (items (analyzeSeo now url r))) = points (scoreImages (raw_images r))
       \<and> points (canonical (items (analyzeSeo now url r)))
           = points (scoreCanonical (raw_canonical r))
       \<and> points (robots (items (analyzeSeo now url r))) = points (scoreRobots (raw_robots r))
       \<and> points (structuredData (items (analyzeSeo now url r)))
           = points (scoreStructuredData (raw_jsonld r))
       \<and> points (wordCount (items (analyzeSeo now url r)))
           = points (scoreWordCount (raw_wordCount r))
       \<and> 0 \<le> s \<and> s \<le> 99
       \<and> clamp s 0 100 = s
       \<and> score_total (analyzeSeo now url r) = s
       \<and> 0 \<le> score_total (analyzeSeo now url r) \<and> score_total (analyzeSeo now url r) \<le> 100"
    using tot rng cl by (simp add: analyzeSeo_items)
  show ?thesis
    unfolding Let_def
    using first [unfolded s_def] bt [of t] bd [of d] bk [of k] bh [of c] bi [of i] bc [of h]
      br [of rb] bj [of j] bw [of w]
    by simp
qed

text \<open>
  Claim C10. For every image record the images scorer returns 10, 6 or 2 points, hence at
  least 2, and a page without qualifying images gets 6. So for all extracted signals the
  total lies in \<open>[2, 99]\<close>: the totals 0, 1 and 100 are never reported.
\<close>

theorem analyzeSeo_total_range:
  "2 \<le> points (scoreImages i)
   \<and> (points (scoreImages i) = 10 \<or> points (scoreImages i) = 6 \<or> points (scoreImages i) = 2)
   \<and> points (scoreImages \<lparr>total_imgs = 0, withAlt = 0, withoutAlt = 0\<rparr>) = 6
   \<and> 2 \<le> score_total (analyzeSeo now url r)
   \<and> score_total (analyzeSeo now url r) \<le> 99
   \<and> score_total (analyzeSeo now url r) \<noteq> 0
   \<and> score_total (analyzeSeo now url r) \<noteq> 1
   \<and> score_total (analyzeSeo now url r) \<noteq> 100"
proof -
  have b: "0 \<le> points (scoreTitle (raw_title r))" "points (scoreTitle (raw_title r)) \<le> 20"
    using scoreTitle_points [of "raw_title r"] by auto
  have c: "0 \<le> points (scoreMetaDescription (raw_metaDescription r))"
    "points (scoreMetaDescription (raw_metaDescription r)) \<le> 20"
    using scoreMetaDescription_points [of "raw_metaDescription r"] by auto
  have d: "0 \<le> points (scoreMetaKeywords (raw_metaKeywords r))"
    "points (scoreMetaKeywords (raw_metaKeywords r)) \<le> 3"
    using scoreMetaKeywords_points [of "raw_metaKeywords r"] by auto
  have e: "0 \<le> points (scoreHeadings (raw_headings r))"
    "points (scoreHeadings (raw_headings r)) \<le> 15"
    using scoreHeadings_points [of "raw_headings r"] by auto
  have f: "2 \<le> points (scoreImages (raw_images r))"
    "points (scoreImages (raw_images r)) \<le> 10"
    using scoreImages_points [of "raw_images r"] by auto
  have g: "0 \<le> points (scoreCanonical (raw_canonical r))"
    "points (scoreCanonical (raw_canonical r)) \<le> 5"
    using scoreCanonical_points [of "raw_canonical r"] by auto
  have h: "0 \<le> points (scoreRobots (raw_robots r))"
    "points (scoreRobots (raw_robots r)) \<le> 6"
    using scoreRobots_points [of "raw_robots r"] by auto
  have j: "0 \<le> points (scoreStructuredData (raw_jsonld r))"
    "points (scoreStructuredData (raw_jsonld r)) \<le> 10"
    using scoreStructuredData_points [of "raw_jsonld r"] by auto
  have k: "0 \<le> points (scoreWordCount (raw_wordCount r))"
    "points (scoreWordCount (raw_wordCount r)) \<le> 10"
    using scoreWordCount_points [of "raw_wordCount r"] by auto
  have t: "2 \<le> score_total (analyzeSeo now url r) \<and> score_total (analyzeSeo now url r) \<le> 99"
    unfolding analyzeSeo_total clamp_def
    using b c d e f g h j k by simp
  have z: "points (scoreImages \<lparr>total_imgs = 0, withAlt = 0, withoutAlt = 0\<rparr>) = 6"
    by (simp add: scoreImages_def)
  show ?thesis
    using scoreImages_points [of i] t z by auto
qed

text \<open>
  An example: a good title (20), no description and no keywords (0, 0), one H1 (15), no
  images (6), a relative canonical (5), a blocking robots tag (0), one script tag without
  text (5) and ten words (2) add up to 53.
\<close>

lemma analyzeSeo_example:
  "score_total (analyzeSeo 0 (str ''https://example.com/'')
     \<lparr>raw_title = str ''Hello world page'', raw_metaDescription = [], raw_metaKeywords = [],
      raw_headings = \<lparr>h1 = 1, h2 = 0, h3 = 0, h4 = 0, h5 = 0, h6 = 0\<rparr>,
      raw_images = \<lparr>total_imgs = 0, withAlt = 0, withoutAlt = 0\<rparr>,
      raw_canonical = str ''/x'', raw_robots = str ''NOINDEX'',
      raw_jsonld = \<lparr>count = 1, parsedCount = 0, parseErrors = 0\<rparr>,
      raw_wordCount = 10\<rparr>) = 53"
  by code_simp

section \<open>The alt-coverage ratio\<close>

subsection \<open>Rounding to the nearest double is monotone\<close>

lemma bitlen_powi_bounds:
  fixes n :: int
  assumes "0 < n"
  shows "(2::rat) powi (bitlen n - 1) \<le> of_int n" and "of_int n < (2::rat) powi (bitlen n)"
proof -
  from assms have b: "0 \<le> bitlen n - 1"
    using bitlen_eq_zero_iff [of n] bitlen_nonneg [of n] by linarith
  from bitlen_bounds [OF assms]
  have l: "(2::int) ^ nat (bitlen n - 1) \<le> n" and u: "n < (2::int) ^ nat (bitlen n)"
    by simp_all
  have "(2::rat) powi (bitlen n - 1) = of_int (2 ^ nat (bitlen n - 1))"
    using b by (simp add: power_int_nonneg_exp)
  also have "\<dots> \<le> of_int n"
    using l by (simp only: of_int_le_iff)
  finally show "(2::rat) powi (bitlen n - 1) \<le> of_int n" .
  have "(of_int n :: rat) < of_int (2 ^ nat (bitlen n))"
    using u by (simp only: of_int_less_iff)
  also have "\<dots> = (2::rat) powi (bitlen n)"
    using b by (simp add: power_int_nonneg_exp)
  finally show "of_int n < (2::rat) powi (bitlen n)" .
qed

lemma binade_bounds:
  assumes "0 < x"
  shows "2 powi (binade x) \<le> x" and "x < 2 powi (binade x + 1)"
proof -
  obtain n d where q: "quotient_of x = (n, d)"
    by (cases "quotient_of x")
  then have d: "0 < d" and x: "x = of_int n / of_int d"
    by (simp_all add: quotient_of_denom_pos quotient_of_div)
  with assms have n: "0 < n"
    by (simp add: zero_less_divide_iff)
  define k where "k = bitlen n - bitlen d"
  have bin: "binade x = (if 2 powi k \<le> x then k else k - 1)"
    by (simp add: binade_def q k_def Let_def)
  have dpos: "(0::rat) < of_int d" using d by simp
  have lo: "2 powi (k - 1) \<le> x"
  proof -
    have "(2::rat) powi (k - 1) * of_int d \<le> 2 powi (k - 1) * 2 powi (bitlen d)"
      using bitlen_powi_bounds(2) [OF d] by (simp add: less_imp_le)
    also have "\<dots> = 2 powi (bitlen n - 1)"
      by (simp add: k_def flip: power_int_add)
    also have "\<dots> \<le> of_int n"
      by (rule bitlen_powi_bounds(1) [OF n])
    finally show ?thesis
      using dpos by (simp add: x pos_le_divide_eq)
  qed
  have hi: "x < 2 powi (k + 1)"
  proof -
    have "(of_int n :: rat) < 2 powi (bitlen n)"
      by (rule bitlen_powi_bounds(2) [OF n])
    also have "\<dots> = 2 powi (k + 1) * 2 powi (bitlen d - 1)"
      by (simp add: k_def flip: power_int_add)
    also have "\<dots> \<le> 2 powi (k + 1) * of_int d"
      using bitlen_powi_bounds(1) [OF d] by simp
    finally show ?thesis
      using dpos by (simp add: x pos_divide_less_eq)
  qed
  show "2 powi (binade x) \<le> x"
    using lo by (simp add: bin)
  show "x < 2 powi (binade x + 1)"
    using hi by (simp add: bin not_le)
qed

lemma round_ties_even_of_int: "round_ties_even (of_int m) = m"
  by (simp add: round_ties_even_def)

lemma round_ties_even_mono:
  assumes "y \<le> z"
  shows "round_ties_even y \<le> round_ties_even z"
proof (cases "\<lfloor>y\<rfloor> = \<lfloor>z\<rfloor>")
  case True
  then show ?thesis
    using assms by (auto simp: round_ties_even_def Let_def)
next
  case False
  with assms have "\<lfloor>y\<rfloor> + 1 \<le> \<lfloor>z\<rfloor>"
    using floor_mono [of y z] by linarith
  moreover have "round_ties_even y \<le> \<lfloor>y\<rfloor> + 1"
    by (simp add: round_ties_even_def Let_def)
  moreover have "\<lfloor>z\<rfloor> \<le> round_ties_even z"
    by (simp add: round_ties_even_def Let_def)
  ultimately show ?thesis by linarith
qed

lemma binade_mono:
  assumes "0 < x" "x \<le> y"
  shows "binade x \<le> binade y"
proof (rule ccontr)
  assume "\<not> binade x \<le> binade y"
  then have "binade y + 1 \<le> binade x" by simp
  then have "(2::rat) powi (binade y + 1) \<le> 2 powi (binade x)"
    by (simp add: power_int_increasing)
  moreover have "y < 2 powi (binade y + 1)" "2 powi (binade x) \<le> x"
    using assms binade_bounds [of x] binade_bounds [of y] by simp_all
  ultimately show False using assms by linarith
qed

lemma to_double_pos:
  "0 < x \<Longrightarrow>
   to_double x = of_int (round_ties_even (x / 2 powi (binade x - 52))) * 2 powi (binade x - 52)"
  by (simp add: to_double_def Let_def)

lemma powi_split: "(2::rat) powi b = of_int (2 ^ n) * 2 powi (b - int n)"
proof -
  have "(2::rat) powi (int n + (b - int n)) = 2 powi (int n) * 2 powi (b - int n)"
    by (rule power_int_add) simp
  then show ?thesis by simp
qed

lemma to_double_bounds:
  assumes "0 < x"
  shows "2 powi (binade x) \<le> to_double x" and "to_double x \<le> 2 powi (binade x + 1)"
proof -
  define e where "e = binade x - 52"
  define y where "y = x / 2 powi e"
  have p: "(0::rat) < 2 powi e" by simp
  have s52: "(2::rat) powi (binade x) = of_int (2 ^ 52) * 2 powi e"
    using powi_split [of "binade x" 52] by (simp add: e_def)
  have s53: "(2::rat) powi (binade x + 1) = of_int (2 ^ 53) * 2 powi e"
    using powi_split [of "binade x + 1" 53] by (simp add: e_def)
  have lo: "of_int (2 ^ 52) \<le> y"
    using binade_bounds(1) [OF assms] p unfolding s52 y_def by (simp only: pos_le_divide_eq)
  have hi: "y \<le> of_int (2 ^ 53)"
    using binade_bounds(2) [OF assms] p unfolding s53 y_def
    by (simp only: pos_divide_le_eq less_imp_le)
  have r: "2 ^ 52 \<le> round_ties_even y" "round_ties_even y \<le> 2 ^ 53"
    using round_ties_even_mono [OF lo] round_ties_even_mono [OF hi]
    by (simp_all only: round_ties_even_of_int)
  have t: "to_double x = of_int (round_ties_even y) * 2 powi e"
    using assms by (simp add: to_double_pos y_def e_def)
  have "of_int (2 ^ 52) * (2::rat) powi e \<le> of_int (round_ties_even y) * 2 powi e"
    using r(1) p by (simp only: mult_le_cancel_right_pos of_int_le_iff)
  then show "2 powi (binade x) \<le> to_double x"
    by (simp only: t s52)
  have "of_int (round_ties_even y) * (2::rat) powi e \<le> of_int (2 ^ 53) * 2 powi e"
    using r(2) p by (simp only: mult_le_cancel_right_pos of_int_le_iff)
  then show "to_double x \<le> 2 powi (binade x + 1)"
    by (simp only: t s53)
qed

lemma to_double_mono:
  assumes "0 \<le> x" "x \<le> y"
  shows "to_double x \<le> to_double y"
proof (cases "x = 0")
  case True
  show ?thesis
  proof (cases "y = 0")
    case True
    with \<open>x = 0\<close> show ?thesis by simp
  next
    case False
    with assms have "0 < y" by simp
    then have "0 < to_double y"
      using to_double_bounds(1) [of y] zero_less_power_int [of "2::rat" "binade y"]
      by linarith
    with \<open>x = 0\<close> show ?thesis by (simp add: to_double_def)
  qed
next
  case False
  with assms have x: "0 < x" and y: "0 < y" by simp_all
  show ?thesis
  proof (cases "binade x = binade y")
    case True
    have "x / 2 powi (binade y - 52) \<le> y / 2 powi (binade y - 52)"
      using assms by (simp add: divide_right_mono)
    then have "round_ties_even (x / 2 powi (binade y - 52))
        \<le> round_ties_even (y / 2 powi (binade y - 52))"
      by (rule round_ties_even_mono)
    then show ?thesis
      using x y True by (simp add: to_double_pos)
  next
    case False
    with binade_mono [OF x assms(2)] have "binade x + 1 \<le> binade y" by simp
    then have "(2::rat) powi (binade x + 1) \<le> 2 powi (binade y)"
      by (simp add: power_int_increasing)
    with to_double_bounds(2) [OF x] to_double_bounds(1) [OF y] show ?thesis
      by linarith
  qed
qed

lemma double_literals:
  "to_double (9/10) = 8106479329266893 / 9007199254740992"
  "to_double (6/10) = 5404319552844595 / 9007199254740992"
  "to_double (8106479329266892 / 9007199254740992) = 8106479329266892 / 9007199254740992"
  "to_double (5404319552844594 / 9007199254740992) = 5404319552844594 / 9007199254740992"
  by code_simp+

lemma ratio_ge_09:
  fixes a t :: nat
  assumes "0 < t" "t < 2 ^ 32"
  shows "(to_double (9/10) \<le> js_div (of_nat a) (of_nat t)) = (9/10 \<le> (of_nat a / of_nat t :: rat))"
proof
  assume "9/10 \<le> (of_nat a / of_nat t :: rat)"
  then show "to_double (9/10) \<le> js_div (of_nat a) (of_nat t)"
    unfolding js_div_def by (intro to_double_mono) simp_all
next
  assume c: "to_double (9/10) \<le> js_div (of_nat a) (of_nat t)"
  show "9/10 \<le> (of_nat a / of_nat t :: rat)"
  proof (rule ccontr)
    assume "\<not> 9/10 \<le> (of_nat a / of_nat t :: rat)"
    then have "(of_nat a / of_nat t :: rat) < 9/10"
      by (simp only: not_le)
    then have "(of_nat a :: rat) < 9/10 * of_nat t"
      using assms(1) by (simp only: pos_divide_less_eq of_nat_0_less_iff)
    then have "(of_nat a :: rat) * 10 < 9 * of_nat t"
      by linarith
    then have "(of_nat (a * 10) :: rat) < of_nat (9 * t)"
      by simp
    then have "a * 10 < 9 * t"
      by (simp only: of_nat_less_iff)
    with assms(2) have "a * 9007199254740992 \<le> 8106479329266892 * t"
      by simp
    then have "(of_nat (a * 9007199254740992) :: rat) \<le> of_nat (8106479329266892 * t)"
      by (simp only: of_nat_le_iff)
    then have "(of_nat a / of_nat t :: rat) \<le> 8106479329266892 / 9007199254740992"
      using assms(1) by (simp add: field_simps)
    then have "to_double (of_nat a / of_nat t) \<le> to_double (8106479329266892 / 9007199254740992)"
      by (intro to_double_mono) simp_all
    with c show False
      unfolding js_div_def double_literals by linarith
  qed
qed

lemma ratio_ge_06:
  fixes a t :: nat
  assumes "0 < t" "t < 2 ^ 32"
  shows "(to_double (6/10) \<le> js_div (of_nat a) (of_nat t)) = (6/10 \<le> (of_nat a / of_nat t :: rat))"
proof
  assume "6/10 \<le> (of_nat a / of_nat t :: rat)"
  then show "to_double (6/10) \<le> js_div (of_nat a) (of_nat t)"
    unfolding js_div_def by (intro to_double_mono) simp_all
next
  assume c: "to_double (6/10) \<le> js_div (of_nat a) (of_nat t)"
  show "6/10 \<le> (of_nat a / of_nat t :: rat)"
  proof (rule ccontr)
    assume "\<not> 6/10 \<le> (of_nat a / of_nat t :: rat)"
    then have "(of_nat a / of_nat t :: rat) < 6/10"
      by (simp only: not_le)
    then have "(of_nat a :: rat) < 6/10 * of_nat t"
      using assms(1) by (simp only: pos_divide_less_eq of_nat_0_less_iff)
    then have "(of_nat a :: rat) * 10 < 6 * of_nat t"
      by linarith
    then have "(of_nat (a * 10) :: rat) < of_nat (6 * t)"
      by simp
    then have "a * 10 < 6 * t"
      by (simp only: of_nat_less_iff)
    with assms(2) have "a * 9007199254740992 \<le> 5404319552844594 * t"
      by simp
    then have "(of_nat (a * 9007199254740992) :: rat) \<le> of_nat (5404319552844594 * t)"
      by (simp only: of_nat_le_iff)
    then have "(of_nat a / of_nat t :: rat) \<le> 5404319552844594 / 9007199254740992"
      using assms(1) by (simp add: field_simps)
    then have "to_double (of_nat a / of_nat t) \<le> to_double (5404319552844594 / 9007199254740992)"
      by (intro to_double_mono) simp_all
    with c show False
      unfolding js_div_def double_literals by linarith
  qed
qed

subsection \<open>The thresholds of the images scorer\<close>

text \<open>
  \<open>total\<close> is the length of an array and so below \<open>2^32\<close>. In that range the rounded
  quotient is at least the double \<open>0.9\<close> exactly when the exact quotient is at least
  \<open>9/10\<close>, and likewise for \<open>0.6\<close>: a quotient below the threshold stays below the
  double that precedes the threshold literal.
\<close>

lemma getImageAltStats_inv:
  "withAlt (getImageAltStats imgs) \<le> total_imgs (getImageAltStats imgs)"
  "withAlt (getImageAltStats imgs) + withoutAlt (getImageAltStats imgs)
     = total_imgs (getImageAltStats imgs)"
  "total_imgs (getImageAltStats imgs) \<le> length imgs"
  by (simp_all add: getImageAltStats_def Let_def del: filter_filter)

lemma scoreImages_result:
  "points (scoreImages i) =
     (if total_imgs i = 0 then 6
      else if to_double (9/10) \<le> js_div (of_nat (withAlt i)) (of_nat (total_imgs i)) then 10
      else if to_double (6/10) \<le> js_div (of_nat (withAlt i)) (of_nat (total_imgs i)) then 6
      else 2)"
  "status (scoreImages i) =
     (if total_imgs i = 0 then Warn
      else if to_double (9/10) \<le> js_div (of_nat (withAlt i)) (of_nat (total_imgs i)) then Good
      else if to_double (6/10) \<le> js_div (of_nat (withAlt i)) (of_nat (total_imgs i)) then Warn
      else Bad)"
  by (simp_all add: scoreImages_def Let_def)

lemma scoreImages_9_of_10:
  "points (scoreImages \<lparr>total_imgs = 10, withAlt = 9, withoutAlt = 1\<rparr>) = 10
   \<and> status (scoreImages \<lparr>total_imgs = 10, withAlt = 9, withoutAlt = 1\<rparr>) = Good
   \<and> badge (scoreImages \<lparr>total_imgs = 10, withAlt = 9, withoutAlt = 1\<rparr>) = str ''90%''"
  by code_simp

text \<open>
  Claim C4. For every image record with \<open>withAlt \<le> total\<close>: without images the scorer
  gives 6 points and status warn; otherwise a ratio \<open>withAlt / total\<close> of at least
  \<open>0.9\<close> gives 10 points and status good, a ratio of at least \<open>0.6\<close> but below \<open>0.9\<close>
  gives 6 points and status warn, and a smaller ratio gives 2 points and status bad. The
  comparisons are not strict, so a ratio on a threshold falls into the better band. This
  holds for the ratio as the source computes it (a double, compared with the doubles
  \<open>0.9\<close> and \<open>0.6\<close>), and, for every \<open>total\<close> below \<open>2^32\<close>, for the exact ratio
  compared with \<open>9/10\<close> and \<open>6/10\<close>. With \<open>withAlt = 9\<close> and \<open>total = 10\<close> the scorer
  gives 10 points, status good and the badge \<open>90%\<close>.
\<close>

theorem scoreImages_bands:
  assumes "withAlt i \<le> total_imgs i"
  shows
  "(total_imgs i = 0 \<longrightarrow> points (scoreImages i) = 6 \<and> status (scoreImages i) = Warn)
   \<and> (total_imgs i \<noteq> 0
        \<and> to_double (9/10) \<le> js_div (of_nat (withAlt i)) (of_nat (total_imgs i)) \<longrightarrow>
      points (scoreImages i) = 10 \<and> status (scoreImages i) = Good)
   \<and> (total_imgs i \<noteq> 0
        \<and> to_double (6/10) \<le> js_div (of_nat (withAlt i)) (of_nat (total_imgs i))
        \<and> js_div (of_nat (withAlt i)) (of_nat (total_imgs i)) < to_double (9/10) \<longrightarrow>
      points (scoreImages i) = 6 \<and> status (scoreImages i) = Warn)
   \<and> (total_imgs i \<noteq> 0
        \<and> js_div (of_nat (withAlt i)) (of_nat (total_imgs i)) < to_double (6/10) \<longrightarrow>
      points (scoreImages i) = 2 \<and> status (scoreImages i) = Bad)
   \<and> (total_imgs i \<noteq> 0 \<and> total_imgs i < 2 ^ 32
        \<and> 9/10 \<le> (of_nat (withAlt i) / of_nat (total_imgs i) :: rat) \<longrightarrow>
      points (scoreImages i) = 10 \<and> status (scoreImages i) = Good)
   \<and> (total_imgs i \<noteq> 0 \<and> total_imgs i < 2 ^ 32
        \<and> 6/10 \<le> (of_nat (withAlt i) / of_nat (total_imgs i) :: rat)
        \<and> (of_nat (withAlt i) / of_nat (total_imgs i) :: rat) < 9/10 \<longrightarrow>
      points (scoreImages i) = 6 \<and> status (scoreImages i) = Warn)
   \<and> (total_imgs i \<noteq> 0 \<and> total_imgs i < 2 ^ 32
        \<and> (of_nat (withAlt i) / of_nat (total_imgs i) :: rat) < 6/10 \<longrightarrow>
      points (scoreImages i) = 2 \<and> status (scoreImages i) = Bad)
   \<and> points (scoreImages \<lparr>total_imgs = 10, withAlt = 9, withoutAlt = 1\<rparr>) = 10
   \<and> status (scoreImages \<lparr>total_imgs = 10, withAlt = 9, withoutAlt = 1\<rparr>) = Good
   \<and> badge (scoreImages \<lparr>total_imgs = 10, withAlt = 9, withoutAlt = 1\<rparr>) = str ''90%''"
proof -
  define r where "r = js_div (of_nat (withAlt i)) (of_nat (total_imgs i))"
  define q :: rat where "q = of_nat (withAlt i) / of_nat (total_imgs i)"
  define c9 where "c9 = to_double (9/10)"
  define c6 where "c6 = to_double (6/10)"
  have res: "points (scoreImages i) =
      (if total_imgs i = 0 then 6 else if c9 \<le> r then 10 else if c6 \<le> r then 6 else 2)"
    "status (scoreImages i) =
      (if total_imgs i = 0 then Warn else if c9 \<le> r then Good else if c6 \<le> r then Warn else Bad)"
    unfolding r_def c9_def c6_def by (rule scoreImages_result)+
  have ex: "(c9 \<le> r) = (9/10 \<le> q)" "(c6 \<le> r) = (6/10 \<le> q)"
    if "total_imgs i \<noteq> 0" "total_imgs i < 2 ^ 32"
    unfolding r_def q_def c9_def c6_def
    using that ratio_ge_09 [where t = "total_imgs i" and a = "withAlt i"]
      ratio_ge_06 [where t = "total_imgs i" and a = "withAlt i"]
    by blast+
  have "c6 \<le> c9"
    unfolding c6_def c9_def double_literals by simp
  have "(6/10 :: rat) \<le> 9/10" by simp
  have 1: "total_imgs i = 0 \<longrightarrow> points (scoreImages i) = 6 \<and> status (scoreImages i) = Warn"
    by (simp add: res)
  have 2: "total_imgs i \<noteq> 0 \<and> c9 \<le> r \<longrightarrow>
      points (scoreImages i) = 10 \<and> status (scoreImages i) = Good"
    by (simp add: res)
  have 3: "total_imgs i \<noteq> 0 \<and> c6 \<le> r \<and> r < c9 \<longrightarrow>
      points (scoreImages i) = 6 \<and> status (scoreImages i) = Warn"
    by (simp add: res not_le)
  have 4: "total_imgs i \<noteq> 0 \<and> r < c6 \<longrightarrow>
      points (scoreImages i) = 2 \<and> status (scoreImages i) = Bad"
    using \<open>c6 \<le> c9\<close> by (auto simp add: res)
  have 5: "total_imgs i \<noteq> 0 \<and> total_imgs i < 2 ^ 32 \<and> 9/10 \<le> q \<longrightarrow>
      points (scoreImages i) = 10 \<and> status (scoreImages i) = Good"
    using 2 ex(1) by blast
  have 6: "total_imgs i \<noteq> 0 \<and> total_imgs i < 2 ^ 32 \<and> 6/10 \<le> q \<and> q < 9/10 \<longrightarrow>
      points (scoreImages i) = 6 \<and> status (scoreImages i) = Warn"
    using 3 ex by (metis not_le)
  have 7: "total_imgs i \<noteq> 0 \<and> total_imgs i < 2 ^ 32 \<and> q < 6/10 \<longrightarrow>
      points (scoreImages i) = 2 \<and> status (scoreImages i) = Bad"
    using 4 ex(2) by (metis not_le)
  show ?thesis
    using 1 2 3 4 5 6 7 scoreImages_9_of_10
    unfolding r_def q_def c9_def c6_def by blast
qed

theorem scoreImages_bands_witness:
  "points (scoreImages \<lparr>total_imgs = 0, withAlt = 0, withoutAlt = 0\<rparr>) = 6
   \<and> status (scoreImages \<lparr>total_imgs = 0, withAlt = 0, withoutAlt = 0\<rparr>) = Warn
   \<and> points (scoreImages \<lparr>total_imgs = 20, withAlt = 19, withoutAlt = 1\<rparr>) = 10
   \<and> status (scoreImages \<lparr>total_imgs = 20, withAlt = 19, withoutAlt = 1\<rparr>) = Good
   \<and> points (scoreImages \<lparr>total_imgs = 10, withAlt = 6, withoutAlt = 4\<rparr>) = 6
   \<and> status (scoreImages \<lparr>total_imgs = 10, withAlt = 6, withoutAlt = 4\<rparr>) = Warn
   \<and> points (scoreImages \<lparr>total_imgs = 10, withAlt = 5, withoutAlt = 5\<rparr>) = 2
   \<and> status (scoreImages \<lparr>total_imgs = 10, withAlt = 5, withoutAlt = 5\<rparr>) = Bad"
proof -
  have 1: "points (scoreImages \<lparr>total_imgs = 0, withAlt = 0, withoutAlt = 0\<rparr>) = 6
      \<and> status (scoreImages \<lparr>total_imgs = 0, withAlt = 0, withoutAlt = 0\<rparr>) = Warn"
    using scoreImages_bands [of "\<lparr>total_imgs = 0, withAlt = 0, withoutAlt = 0\<rparr>"] by simp
  have 2: "points (scoreImages \<lparr>total_imgs = 20, withAlt = 19, withoutAlt = 1\<rparr>) = 10
      \<and> status (scoreImages \<lparr>total_imgs = 20, withAlt = 19, withoutAlt = 1\<rparr>) = Good"
    using scoreImages_bands [of "\<lparr>total_imgs = 20, withAlt = 19, withoutAlt = 1\<rparr>"] by simp
  have 3: "points (scoreImages \<lparr>total_imgs = 10, withAlt = 6, withoutAlt = 4\<rparr>) = 6
      \<and> status (scoreImages \<lparr>total_imgs = 10, withAlt = 6, withoutAlt = 4\<rparr>) = Warn"
    using scoreImages_bands [of "\<lparr>total_imgs = 10, withAlt = 6, withoutAlt = 4\<rparr>"] by simp
  have 4: "points (scoreImages \<lparr>total_imgs = 10, withAlt = 5, withoutAlt = 5\<rparr>) = 2
      \<and> status (scoreImages \<lparr>total_imgs = 10, withAlt = 5, withoutAlt = 5\<rparr>) = Bad"
    using scoreImages_bands [of "\<lparr>total_imgs = 10, withAlt = 5, withoutAlt = 5\<rparr>"] by simp
  show ?thesis
    using 1 2 3 4 by simp
qed

end
